theory Spec2Isabelle
  imports Main "HOL-Library.Sublist"
begin

section \<open>Python strings\<close>

text \<open>
  A Python \<open>str\<close> is modelled as a \<open>string\<close>; the model covers ASCII text, which is
  what Yosys dumps and CIRCT annotations consist of.  The character classes are the
  ASCII part of what Python's \<open>re\<close> module and \<open>str.strip\<close> use.
\<close>

definition newline :: char where
  "newline = CHR 0x0A"

definition backslash :: char where
  "backslash = CHR 0x5C"

definition isspace :: "char \<Rightarrow> bool" where
  "isspace c = (let n = (of_char c :: nat) in (9 \<le> n \<and> n \<le> 13) \<or> (28 \<le> n \<and> n \<le> 32))"

definition isdigit :: "char \<Rightarrow> bool" where
  "isdigit c = (let n = (of_char c :: nat) in 48 \<le> n \<and> n \<le> 57)"

definition isword :: "char \<Rightarrow> bool" where
  "isword c = (let n = (of_char c :: nat) in
     (48 \<le> n \<and> n \<le> 57) \<or> (65 \<le> n \<and> n \<le> 90) \<or> (97 \<le> n \<and> n \<le> 122) \<or> n = 95)"

text \<open>\<open>s.startswith(p)\<close>\<close>

fun startswith :: "string \<Rightarrow> string \<Rightarrow> bool" where
  "startswith s [] = True"
| "startswith [] (p # ps) = False"
| "startswith (c # cs) (p # ps) = (c = p \<and> startswith cs ps)"

text \<open>\<open>needle in hay\<close>\<close>

fun str_in :: "string \<Rightarrow> string \<Rightarrow> bool" where
  "str_in needle [] = (needle = [])"
| "str_in needle (c # cs) = (startswith (c # cs) needle \<or> str_in needle cs)"

text \<open>\<open>s.split(sep)\<close> for a one-character separator: never the empty list.\<close>

fun split_on :: "char \<Rightarrow> string \<Rightarrow> string list" where
  "split_on sep [] = [[]]"
| "split_on sep (c # cs) =
     (if c = sep then [] # split_on sep cs
      else (case split_on sep cs of
              [] \<Rightarrow> [[c]]
            | l # ls \<Rightarrow> (c # l) # ls))"

text \<open>\<open>sep.join(parts)\<close>\<close>

fun join :: "string \<Rightarrow> string list \<Rightarrow> string" where
  "join sep [] = []"
| "join sep [p] = p"
| "join sep (p # q # ps) = p @ sep @ join sep (q # ps)"

text \<open>\<open>s.strip()\<close>\<close>

definition strip :: "string \<Rightarrow> string" where
  "strip s = dropWhile isspace (rev (dropWhile isspace (rev s)))"

text \<open>\<open>s.replace(c, '')\<close> for a one-character \<open>c\<close>\<close>

definition remove_char :: "char \<Rightarrow> string \<Rightarrow> string" where
  "remove_char c s = filter (\<lambda>x. x \<noteq> c) s"

text \<open>\<open>s.ljust(n)\<close>, which is also what the format spec \<open>:<n\<close> does to a string\<close>

definition ljust :: "string \<Rightarrow> nat \<Rightarrow> string" where
  "ljust s n = s @ replicate (n - length s) CHR '' ''"

text \<open>\<open>str(n)\<close> and \<open>int(s)\<close> for natural numbers in decimal\<close>

definition digit_char :: "nat \<Rightarrow> char" where
  "digit_char d = char_of (48 + d)"

fun str_nat :: "nat \<Rightarrow> string" where
  "str_nat n = (if n < 10 then [digit_char n] else str_nat (n div 10) @ [digit_char (n mod 10)])"

declare str_nat.simps [simp del]

definition digit_val :: "char \<Rightarrow> nat" where
  "digit_val c = of_char c - 48"

definition int_of_digits :: "string \<Rightarrow> nat" where
  "int_of_digits s = foldl (\<lambda>acc c. 10 * acc + digit_val c) 0 s"

section \<open>The signal table and the environment\<close>

text \<open>
  A catalogued wire is the tuple \<open>(wire_name, width, src_attr, hdlname)\<close> of
  \<open>parse_dump\<close>; \<open>None\<close> is Python's \<open>None\<close>.  Widths, lines and columns are results
  of \<open>int\<close> on a match of \<open>\d+\<close>, hence natural numbers.
\<close>

type_synonym wire = "string \<times> nat \<times> string option \<times> string option"

text \<open>
  What the program reads from its surroundings: \<open>os.path.abspath\<close>, the lines of a
  file as iterating over the open file yields them (\<open>None\<close> when \<open>open\<close> fails), and
  the Yosys process, a function from the script it is given to what
  \<open>subprocess.run\<close> does.
\<close>

record env =
  abspath :: "string \<Rightarrow> string"
  read_lines :: "string \<Rightarrow> string list option"

datatype proc_outcome = Completed string string | Expired | Failed

datatype py_error = OSError | TimeoutExpired | ValueError

type_synonym backend = "string \<Rightarrow> proc_outcome"

section \<open>trace\_signal.py: module introspection and the miter script\<close>

text \<open>
  \<open>re.match(r'\s*module\s+(\w+)', line)\<close>: the classes \<open>\s\<close> and \<open>\w\<close> are
  disjoint and no letter of \<open>module\<close> is a space, so the greedy match is
  deterministic.
\<close>

definition match_module :: "string \<Rightarrow> string option" where
  "match_module line =
     (let r1 = dropWhile isspace line in
      if \<not> startswith r1 ''module'' then None
      else let r2 = drop 6 r1; r3 = dropWhile isspace r2; name = takeWhile isword r3 in
        if takeWhile isspace r2 = [] \<or> name = [] then None else Some name)"

fun other_modules_loop :: "string list \<Rightarrow> string \<Rightarrow> string list \<Rightarrow> string list" where
  "other_modules_loop [] target modules = modules"
| "other_modules_loop (line # lines) target modules =
     (case match_module line of
        Some m \<Rightarrow> (if m \<noteq> target then other_modules_loop lines target (modules @ [m])
                   else other_modules_loop lines target modules)
      | None \<Rightarrow> other_modules_loop lines target modules)"

definition get_other_modules :: "env \<Rightarrow> string \<Rightarrow> string \<Rightarrow> py_error + string list" where
  "get_other_modules e verilog_file target_module =
     (case read_lines e verilog_file of
        None \<Rightarrow> Inl OSError
      | Some lines \<Rightarrow> Inr (other_modules_loop lines target_module []))"

definition miter_text :: "string \<Rightarrow> string \<Rightarrow> string \<Rightarrow> string \<Rightarrow> string \<Rightarrow> string" where
  "miter_text gold_abs gold_delete gate_abs gate_delete module_name =
     ''read_verilog -formal '' @ gold_abs @ [newline] @
     gold_delete @ [newline] @
     ''prep -flatten -top '' @ module_name @ [newline] @
     ''rename -top gold'' @ [newline] @
     ''clk2fflogic'' @ [newline] @
     ''design -stash gold'' @ [newline] @
     [newline] @
     ''read_verilog -formal '' @ gate_abs @ [newline] @
     gate_delete @ [newline] @
     ''prep -flatten -top '' @ module_name @ [newline] @
     ''rename -top gate'' @ [newline] @
     ''clk2fflogic'' @ [newline] @
     [newline] @
     ''design -copy-from gold -as gold gold'' @ [newline] @
     ''miter -equiv -flatten -make_outputs gold gate miter'' @ [newline] @
     ''hierarchy -top miter'' @ [newline]"

text \<open>\<open>'\n'.join(f'delete {m}' for m in others)\<close>\<close>

definition delete_commands :: "string list \<Rightarrow> string" where
  "delete_commands others = join [newline] (map (\<lambda>m. ''delete '' @ m) others)"

definition generate_miter_script :: "env \<Rightarrow> string \<Rightarrow> string \<Rightarrow> string \<Rightarrow> py_error + string" where
  "generate_miter_script e gold_file gate_file module_name =
     (case get_other_modules e gold_file module_name of
        Inl err \<Rightarrow> Inl err
      | Inr gold_others \<Rightarrow>
     (case get_other_modules e gate_file module_name of
        Inl err \<Rightarrow> Inl err
      | Inr gate_others \<Rightarrow>
          Inr (miter_text (abspath e gold_file)
                 (delete_commands gold_others)
                 (abspath e gate_file)
                 (delete_commands gate_others)
                 module_name)))"

section \<open>trace\_signal.py: run\_proofs\<close>

text \<open>The line that \<open>run_proofs\<close> adds to the script for one candidate.\<close>

definition sat_command :: "bool \<Rightarrow> string \<Rightarrow> wire \<Rightarrow> string" where
  "sat_command bounded gate_target_wire cand =
     (case cand of (wire_name, width, src, orig_name) \<Rightarrow>
        if bounded then
          ''sat -prove '' @ wire_name @ '' '' @ gate_target_wire @ '' -set-init-zero -seq 2'' @ [newline]
        else
          ''sat -tempinduct -prove trigger 0 -prove '' @ wire_name @ '' '' @ gate_target_wire
            @ '' -set-init-zero -seq 2 miter'' @ [newline])"

text \<open>The loop \<open>for ... in candidates: script += ...\<close>\<close>

fun add_sat_commands :: "bool \<Rightarrow> string \<Rightarrow> wire list \<Rightarrow> string \<Rightarrow> string" where
  "add_sat_commands bounded gate_target_wire [] script = script"
| "add_sat_commands bounded gate_target_wire (cand # cands) script =
     add_sat_commands bounded gate_target_wire cands
       (script @ sat_command bounded gate_target_wire cand)"

text \<open>
  The loop over the lines of the output, with its two variables \<open>results\<close> and
  \<open>result_idx\<close>.
\<close>

fun parse_results :: "wire list \<Rightarrow> string list \<Rightarrow> nat \<Rightarrow> (wire \<times> bool) list \<Rightarrow> (wire \<times> bool) list" where
  "parse_results candidates [] result_idx results = results"
| "parse_results candidates (line # lines) result_idx results =
     (if str_in ''SUCCESS!'' line then
        (if result_idx < length candidates
         then parse_results candidates lines (result_idx + 1)
                (results @ [(candidates ! result_idx, True)])
         else parse_results candidates lines result_idx results)
      else if str_in ''FAIL!'' line then
        (if result_idx < length candidates
         then parse_results candidates lines (result_idx + 1)
                (results @ [(candidates ! result_idx, False)])
         else parse_results candidates lines result_idx results)
      else parse_results candidates lines result_idx results)"

text \<open>
  \<open>run_proofs\<close> returns the scripts it has given to Yosys, in order, and either the
  exception that leaves it or the list it returns.  A process that cannot be
  started is an \<open>OSError\<close>.
\<close>

definition run_proofs ::
  "env \<Rightarrow> backend \<Rightarrow> string \<Rightarrow> string \<Rightarrow> string \<Rightarrow> string \<Rightarrow> wire list \<Rightarrow> bool
     \<Rightarrow> string list \<times> (py_error + (wire \<times> bool) list)" where
  "run_proofs e yosys gold_file gate_file module_name gate_target_wire candidates bounded =
     (case generate_miter_script e gold_file gate_file module_name of
        Inl err \<Rightarrow> ([], Inl err)
      | Inr script0 \<Rightarrow>
          (let script = add_sat_commands bounded gate_target_wire candidates script0 in
           case yosys script of
             Expired \<Rightarrow> ([script], Inl TimeoutExpired)
           | Failed \<Rightarrow> ([script], Inl OSError)
           | Completed out err \<Rightarrow>
               ([script], Inr (parse_results candidates (split_on newline (out @ err)) 0 []))))"

text \<open>
  What a line of the output stands for: a success marker, a failure marker, or
  nothing.  \<open>markers\<close> is the stream of markers of an output, in emission order.
\<close>

definition marker_of :: "string \<Rightarrow> bool option" where
  "marker_of line =
     (if str_in ''SUCCESS!'' line then Some True
      else if str_in ''FAIL!'' line then Some False
      else None)"

definition markers :: "string \<Rightarrow> bool list" where
  "markers output = List.map_filter marker_of (split_on newline output)"

section \<open>trace\_signal.py: parse\_dump\<close>

definition dquote :: char where
  "dquote = CHR 0x22"

text \<open>
  \<open>re.match(r'attribute\s+\\KEY\s+"([^"]+)"', line)\<close> for \<open>KEY\<close> one of \<open>src\<close> and
  \<open>hdlname\<close>; the result is group 1.  Each greedy repetition is followed by a
  character outside its class, so no shorter repetition can match where the
  longest does not.
\<close>

definition match_attribute :: "string \<Rightarrow> string \<Rightarrow> string option" where
  "match_attribute key line =
     (if \<not> startswith line ''attribute'' then None
      else let r1 = drop 9 line; r2 = dropWhile isspace r1 in
      if takeWhile isspace r1 = [] \<or> \<not> startswith r2 (backslash # key) then None
      else let r3 = drop (Suc (length key)) r2; r4 = dropWhile isspace r3 in
      if takeWhile isspace r3 = [] then None
      else (case r4 of
              [] \<Rightarrow> None
            | q # r5 \<Rightarrow>
                (let v = takeWhile (\<lambda>c. c \<noteq> dquote) r5 in
                 if q \<noteq> dquote \<or> v = [] \<or> dropWhile (\<lambda>c. c \<noteq> dquote) r5 = [] then None
                 else Some v)))"

text \<open>
  The declaration pattern
  \<open>wire\s+(?:width\s+(\d+)\s+)?(?:(?:input|output)\s+\d+\s+)?(.+)\<close>, on a line
  that \<open>strip\<close> has been applied to and that holds no newline, as in \<open>parse_dump\<close>:
  such a line does not end in a space, so what follows a matched optional group
  is never empty and \<open>(.+)\<close> takes it whole.  The result is groups 1 and 2.
\<close>

definition match_number_group :: "string \<Rightarrow> string \<Rightarrow> (string \<times> string) option" where
  "match_number_group keyword r =
     (if \<not> startswith r keyword then None
      else let r1 = drop (length keyword) r; r2 = dropWhile isspace r1;
               ds = takeWhile isdigit r2; r3 = dropWhile isdigit r2 in
      if takeWhile isspace r1 = [] \<or> ds = [] \<or> takeWhile isspace r3 = [] then None
      else Some (ds, dropWhile isspace r3))"

definition match_wire :: "string \<Rightarrow> (string option \<times> string) option" where
  "match_wire line =
     (if \<not> startswith line ''wire'' then None
      else let r1 = drop 4 line; r = dropWhile isspace r1 in
      if takeWhile isspace r1 = [] then None
      else let (w, ra) = (case match_number_group ''width'' r of
                            Some (ds, r') \<Rightarrow> (Some ds, r')
                          | None \<Rightarrow> (None, r));
               rb = (case match_number_group ''input'' ra of
                       Some (ds, r') \<Rightarrow> r'
                     | None \<Rightarrow>
                         (case match_number_group ''output'' ra of
                            Some (ds, r') \<Rightarrow> r'
                          | None \<Rightarrow> ra))
      in if rb = [] then None else Some (w, rb))"

text \<open>
  The variables of the loop of \<open>parse_dump\<close>: the two pending attributes and the
  two tables.
\<close>

record pstate =
  current_src :: "string option"
  current_hdlname :: "string option"
  gate_wires :: "wire list"
  gold_wires :: "wire list"

definition reset_attributes :: "pstate \<Rightarrow> pstate" where
  "reset_attributes st = st\<lparr>current_src := None, current_hdlname := None\<rparr>"

text \<open>The branch that classifies a declared wire as gold or gate.\<close>

definition classify_wire :: "string \<Rightarrow> string \<Rightarrow> string \<Rightarrow> nat \<Rightarrow> pstate \<Rightarrow> pstate" where
  "classify_wire gate_abs gold_abs wire_name width st =
     (let hdl = (case current_hdlname st of None \<Rightarrow> [] | Some h \<Rightarrow> h);
          src = (case current_src st of None \<Rightarrow> [] | Some s \<Rightarrow> s) in
      if hdl \<noteq> [] \<and> startswith hdl ''gold '' then
        st\<lparr>gold_wires := gold_wires st @ [(wire_name, width, current_src st, Some (drop 5 hdl))]\<rparr>
      else if hdl \<noteq> [] \<and> startswith hdl ''gate '' then
        st\<lparr>gate_wires := gate_wires st @ [(wire_name, width, current_src st, Some (drop 5 hdl))]\<rparr>
      else if src \<noteq> [] then
        (if str_in gold_abs src then
           st\<lparr>gold_wires := gold_wires st @ [(wire_name, width, current_src st, None)]\<rparr>
         else if str_in gate_abs src then
           st\<lparr>gate_wires := gate_wires st @ [(wire_name, width, current_src st, None)]\<rparr>
         else st)
      else st)"

text \<open>One iteration of the loop, on one element of \<open>dump_text.split('\n')\<close>.\<close>

definition parse_line :: "string \<Rightarrow> string \<Rightarrow> pstate \<Rightarrow> string \<Rightarrow> pstate" where
  "parse_line gate_abs gold_abs st raw =
     (let line = strip raw in
      case match_attribute ''src'' line of
        Some v \<Rightarrow> st\<lparr>current_src := Some v\<rparr>
      | None \<Rightarrow>
     (case match_attribute ''hdlname'' line of
        Some v \<Rightarrow> st\<lparr>current_hdlname := Some v\<rparr>
      | None \<Rightarrow>
     (case match_wire line of
        Some (w, nm) \<Rightarrow>
          (let width = (case w of Some ds \<Rightarrow> int_of_digits ds | None \<Rightarrow> 1);
               wire_name = strip nm
           in reset_attributes (classify_wire gate_abs gold_abs wire_name width st))
      | None \<Rightarrow>
          (if \<not> startswith line ''attribute'' then reset_attributes st else st))))"

definition parse_lines :: "string \<Rightarrow> string \<Rightarrow> pstate \<Rightarrow> string list \<Rightarrow> pstate" where
  "parse_lines gate_abs gold_abs st lines = foldl (parse_line gate_abs gold_abs) st lines"

definition initial_pstate :: pstate where
  "initial_pstate = \<lparr>current_src = None, current_hdlname = None, gate_wires = [], gold_wires = []\<rparr>"

definition parse_dump :: "env \<Rightarrow> string \<Rightarrow> string \<Rightarrow> string \<Rightarrow> wire list \<times> wire list" where
  "parse_dump e dump_text gate_file gold_file =
     (let st = parse_lines (abspath e gate_file) (abspath e gold_file) initial_pstate
                 (split_on newline dump_text)
      in (gate_wires st, gold_wires st))"

section \<open>trace\_signal.py: find\_gate\_target and filter\_gold\_candidates\<close>

text \<open>The f-string \<open>"{gate_abs}:{line}.{start_col}-{line}.{end_col}"\<close>\<close>

definition target_src_key :: "string \<Rightarrow> nat \<Rightarrow> nat \<Rightarrow> nat \<Rightarrow> string" where
  "target_src_key gate_abs line start_col end_col =
     gate_abs @ '':'' @ str_nat line @ ''.'' @ str_nat start_col @ ''-'' @ str_nat line
       @ ''.'' @ str_nat end_col"

fun find_matches :: "string \<Rightarrow> wire list \<Rightarrow> wire list \<Rightarrow> wire list" where
  "find_matches target_src [] matches = matches"
| "find_matches target_src ((wire_name, width, src, hdlname) # ws) matches =
     (case src of
        None \<Rightarrow> find_matches target_src ws matches
      | Some s \<Rightarrow>
          (if s \<noteq> [] \<and> str_in target_src s
           then find_matches target_src ws (matches @ [(wire_name, width, src, hdlname)])
           else find_matches target_src ws matches))"

definition find_gate_target :: "env \<Rightarrow> wire list \<Rightarrow> string \<Rightarrow> nat \<Rightarrow> nat \<Rightarrow> nat \<Rightarrow> wire list" where
  "find_gate_target e gate_ws gate_file line start_col end_col =
     find_matches (target_src_key (abspath e gate_file) line start_col end_col) gate_ws []"

text \<open>
  The body of the loop of \<open>filter_gold_candidates\<close>, up to the last \<open>continue\<close>:
  whether the wire is skipped.  The variable \<open>name\<close> of the source is assigned and
  never read.
\<close>

definition skipped :: "wire \<Rightarrow> bool" where
  "skipped w =
     (case w of (wire_name, width, src, orig_name) \<Rightarrow>
      let orig = (case orig_name of None \<Rightarrow> [] | Some n \<Rightarrow> n) in
      if orig \<noteq> [] \<and> (orig = ''clock'' \<or> orig = ''reset'') then True
      else if orig \<noteq> [] \<and> startswith orig ''io_'' then True
      else if str_in ''clk2fflogic'' wire_name then True
      else if startswith wire_name (backslash # ''in_'') \<or> startswith wire_name (backslash # ''trigger'')
        then True
      else if startswith wire_name (backslash # ''gold_'') \<or> startswith wire_name (backslash # ''gate_'')
        then True
      else if str_in ''$procmux$'' wire_name then True
      else if str_in ''rtlil.cc'' wire_name then True
      else if str_in (''$0'' @ [backslash]) wire_name then True
      else False)"

fun filter_loop :: "wire list \<Rightarrow> wire list \<Rightarrow> wire list" where
  "filter_loop [] candidates = candidates"
| "filter_loop (w # ws) candidates =
     (if skipped w then filter_loop ws candidates else filter_loop ws (candidates @ [w]))"

definition filter_gold_candidates :: "wire list \<Rightarrow> wire list" where
  "filter_gold_candidates gold_ws = filter_loop gold_ws []"

text \<open>
  Step 4 of \<open>main\<close>: the filter, then the list comprehension that keeps the wires of
  the target's width.
\<close>

definition width_candidates :: "wire list \<Rightarrow> nat \<Rightarrow> wire list" where
  "width_candidates gold_ws gate_target_width =
     [(w, wd, s, h) . (w, wd, s, h) \<leftarrow> filter_gold_candidates gold_ws, wd = gate_target_width]"

section \<open>trace\_signal.py: main, from step 1 to step 5\<close>

definition run_yosys_dump :: "env \<Rightarrow> backend \<Rightarrow> string \<Rightarrow> string \<Rightarrow> string \<Rightarrow> py_error + string" where
  "run_yosys_dump e yosys gold_file gate_file module_name =
     (case generate_miter_script e gold_file gate_file module_name of
        Inl err \<Rightarrow> Inl err
      | Inr script \<Rightarrow>
          (case yosys (script @ ''dump miter'' @ [newline]) of
             Expired \<Rightarrow> Inl TimeoutExpired
           | Failed \<Rightarrow> Inl OSError
           | Completed out err \<Rightarrow> Inr out))"

text \<open>
  The lines that the loop under \<open>Available gate signals:\<close> prints, one for each gate
  wire that has a \<open>src\<close>.
\<close>

definition src_short :: "string \<Rightarrow> string" where
  "src_short src = (if str_in '':'' src then last (split_on CHR '':'' src) else src)"

fun available_signals :: "wire list \<Rightarrow> string list" where
  "available_signals [] = []"
| "available_signals ((wire_name, width, src, hdlname) # ws) =
     (let s = (case src of None \<Rightarrow> [] | Some x \<Rightarrow> x);
          h = (case hdlname of None \<Rightarrow> [] | Some x \<Rightarrow> x) in
      if s \<noteq> [] \<and> h \<noteq> [] then
        (''    '' @ ljust h 25 @ '' width='' @ str_nat width @ ''  src='' @ src_short s)
          # available_signals ws
      else if s \<noteq> [] then
        (''    '' @ ljust (remove_char backslash wire_name) 25 @ '' width='' @ str_nat width
           @ ''  src='' @ src_short s)
          # available_signals ws
      else available_signals ws)"

text \<open>
  How \<open>main\<close> ends: \<open>sys.exit(1)\<close> after the diagnostic of a location that no gate
  wire matches (with the lines printed by that block), \<open>sys.exit(1)\<close> for an empty
  candidate list, an exception that nothing catches, or the proofs having run.
  The narration that \<open>main\<close> prints on the way and the report of step 6 are left
  out.
\<close>

datatype trace_outcome =
    NoSignalFound "string list"
  | NoCandidates wire
  | Uncaught py_error
  | ProofsRun wire "wire list" "(wire \<times> bool) list"

fun exit_code :: "trace_outcome \<Rightarrow> nat" where
  "exit_code (NoSignalFound printed) = 1"
| "exit_code (NoCandidates target) = 1"
| "exit_code (Uncaught err) = 1"
| "exit_code (ProofsRun target candidates results) = 0"

definition no_signal_lines :: "string \<Rightarrow> wire list \<Rightarrow> string list" where
  "no_signal_lines loc gate_ws =
     [[], ''  Error: No signal found at location '' @ loc, ''  Available gate signals:'']
       @ available_signals gate_ws"

text \<open>
  Lines 379, 381 and 395 of \<open>main\<close>: no target when \<open>matches\<close> is empty, else
  \<open>matches[0]\<close>.
\<close>

definition resolve_target :: "env \<Rightarrow> wire list \<Rightarrow> string \<Rightarrow> nat \<Rightarrow> nat \<Rightarrow> nat \<Rightarrow> wire option" where
  "resolve_target e gate_ws gate_file line_num start_col end_col =
     (case find_gate_target e gate_ws gate_file line_num start_col end_col of
        [] \<Rightarrow> None
      | target # others \<Rightarrow> Some target)"

definition main_steps ::
  "env \<Rightarrow> backend \<Rightarrow> string \<Rightarrow> string \<Rightarrow> string \<Rightarrow> string \<Rightarrow> nat \<Rightarrow> nat \<Rightarrow> nat \<Rightarrow> bool
     \<Rightarrow> trace_outcome" where
  "main_steps e yosys gold_file gate_file module_name loc line_num start_col end_col bounded =
     (case run_yosys_dump e yosys gold_file gate_file module_name of
        Inl err \<Rightarrow> Uncaught err
      | Inr dump_text \<Rightarrow>
          (case parse_dump e dump_text gate_file gold_file of (gate_ws, gold_ws) \<Rightarrow>
             (case resolve_target e gate_ws gate_file line_num start_col end_col of
                None \<Rightarrow> NoSignalFound (no_signal_lines loc gate_ws)
              | Some target \<Rightarrow>
                  (case target of (gate_target_wire, gate_target_width, gate_target_src, gate_target_hdl) \<Rightarrow>
                     (let candidates = width_candidates gold_ws gate_target_width in
                      if candidates = [] then NoCandidates target
                      else (case snd (run_proofs e yosys gold_file gate_file module_name
                                        gate_target_wire candidates bounded) of
                              Inl err \<Rightarrow> Uncaught err
                            | Inr results \<Rightarrow> ProofsRun target candidates results))))))"

section \<open>find\_correspondences.py: test\_equivalence and the loop of main\<close>

text \<open>The script of \<open>test_equivalence\<close>, an f-string.\<close>

definition equiv_script ::
  "string \<Rightarrow> string \<Rightarrow> string \<Rightarrow> string \<Rightarrow> string \<Rightarrow> string \<Rightarrow> string \<Rightarrow> string \<Rightarrow> string" where
  "equiv_script gold_file gate_file module_name gold_delete_cmds gate_delete_cmds gold_sig gate_sig
       equiv_cmd =
     [newline] @
     ''read_verilog -sv '' @ gold_file @ [newline] @
     ''rename '' @ module_name @ '' gold'' @ [newline] @
     gold_delete_cmds @ [newline] @
     [newline] @
     ''read_verilog -sv '' @ gate_file @ [newline] @
     ''rename '' @ module_name @ '' gate'' @ [newline] @
     gate_delete_cmds @ [newline] @
     [newline] @
     ''proc'' @ [newline] @
     ''opt_clean'' @ [newline] @
     ''equiv_make gold gate equiv_mod'' @ [newline] @
     ''cd equiv_mod'' @ [newline] @
     [newline] @
     ''# Count cells before adding our pair'' @ [newline] @
     ''select -count t:$equiv'' @ [newline] @
     [newline] @
     ''# Add our specific pair'' @ [newline] @
     ''equiv_add '' @ [backslash] @ gold_sig @ ''_gold '' @ [backslash] @ gate_sig @ ''_gate''
       @ [newline] @
     [newline] @
     ''# Count cells after adding our pair'' @ [newline] @
     ''select -count t:$equiv'' @ [newline] @
     [newline] @
     ''# Try to prove'' @ [newline] @
     equiv_cmd @ [newline] @
     [newline] @
     ''# Check status'' @ [newline] @
     ''equiv_status'' @ [newline]"

text \<open>
  \<open>re.findall(r'(\d+) objects', output)\<close>: at a position, the longest run of digits
  must be followed by \<open> objects\<close> (a shorter run is followed by a digit); after a
  match the scan goes on behind it, else at the next character.
\<close>

function find_counts :: "string \<Rightarrow> string list" where
  "find_counts [] = []"
| "find_counts (c # cs) =
     (if takeWhile isdigit (c # cs) \<noteq> [] \<and> startswith (dropWhile isdigit (c # cs)) '' objects''
      then takeWhile isdigit (c # cs) # find_counts (drop 8 (dropWhile isdigit (c # cs)))
      else find_counts cs)"
  by pat_completeness auto
termination
proof (relation "measure length")
  fix c :: char and cs :: string
  have "length (dropWhile isdigit (c # cs)) \<le> length (c # cs)"
    by (rule length_dropWhile_le)
  then show "(drop 8 (dropWhile isdigit (c # cs)), c # cs) \<in> measure length"
    by simp
qed simp_all

text \<open>
  \<open>re.search(r'Of those cells (\d+) are proven', output)\<close>: group 1 of the leftmost
  match.
\<close>

fun search_proven :: "string \<Rightarrow> string option" where
  "search_proven [] = None"
| "search_proven (c # cs) =
     (if startswith (c # cs) ''Of those cells ''
         \<and> takeWhile isdigit (drop 15 (c # cs)) \<noteq> []
         \<and> startswith (dropWhile isdigit (drop 15 (c # cs))) '' are proven''
      then Some (takeWhile isdigit (drop 15 (c # cs)))
      else search_proven cs)"

text \<open>
  Lines 155 to 191 of \<open>test_equivalence\<close>: what it returns for the standard output
  of a Yosys run that ended in time.
\<close>

definition judge_output :: "string \<Rightarrow> bool" where
  "judge_output output =
     (if str_in ''Error in gold signal'' output \<or> str_in ''Error in gate signal'' output then False
      else (case find_counts output of
              before # after # more_counts \<Rightarrow>
                if int (int_of_digits after) - int (int_of_digits before) \<le> 0 then False
                else if str_in ''Unproven $equiv $auto$equiv_add'' output then False
                else (case search_proven output of
                        Some proven \<Rightarrow> int_of_digits proven > 0
                      | None \<Rightarrow> False)
            | _ \<Rightarrow> False))"

text \<open>
  \<open>test_equivalence\<close> returns the scripts it has given to Yosys and either the
  exception that leaves it or its result.  \<open>subprocess.TimeoutExpired\<close> is caught
  inside; a process that cannot be started is an \<open>OSError\<close> that is not.
\<close>

definition test_equivalence ::
  "env \<Rightarrow> backend \<Rightarrow> string \<Rightarrow> string \<Rightarrow> string \<Rightarrow> string \<Rightarrow> string \<Rightarrow> bool
     \<Rightarrow> string list \<times> (py_error + bool)" where
  "test_equivalence e yosys gold_file gate_file module_name gold_sig gate_sig use_induct =
     (let equiv_cmd = (if use_induct then ''equiv_induct'' else ''equiv_simple'') in
      if gold_sig = gate_sig then ([], Inr True)
      else (case get_other_modules e gold_file module_name of
              Inl err \<Rightarrow> ([], Inl err)
            | Inr gold_other_modules \<Rightarrow>
           (case get_other_modules e gate_file module_name of
              Inl err \<Rightarrow> ([], Inl err)
            | Inr gate_other_modules \<Rightarrow>
                (let script = equiv_script gold_file gate_file module_name
                       (delete_commands gold_other_modules)
                       (delete_commands gate_other_modules)
                       gold_sig gate_sig equiv_cmd
                 in case yosys script of
                      Expired \<Rightarrow> ([script], Inr False)
                    | Failed \<Rightarrow> ([script], Inl OSError)
                    | Completed out err \<Rightarrow> ([script], Inr (judge_output out))))))"

text \<open>
  The loop of \<open>main\<close> over \<open>matching_width_pairs\<close>, with its variable
  \<open>correspondences\<close>: both \<open>except\<close> clauses go on with the next pair.
\<close>

fun discovery_loop ::
  "env \<Rightarrow> backend \<Rightarrow> string \<Rightarrow> string \<Rightarrow> string \<Rightarrow> bool \<Rightarrow> (string \<times> string \<times> nat) list
     \<Rightarrow> (string \<times> string \<times> nat) list \<Rightarrow> (string \<times> string \<times> nat) list" where
  "discovery_loop e yosys gold_file gate_file module_name use_induct [] correspondences =
     correspondences"
| "discovery_loop e yosys gold_file gate_file module_name use_induct
       ((gold_sig, gate_sig, width) # pairs) correspondences =
     (case snd (test_equivalence e yosys gold_file gate_file module_name gold_sig gate_sig use_induct) of
        Inr True \<Rightarrow>
          discovery_loop e yosys gold_file gate_file module_name use_induct pairs
            (correspondences @ [(gold_sig, gate_sig, width)])
      | Inr False \<Rightarrow>
          discovery_loop e yosys gold_file gate_file module_name use_induct pairs correspondences
      | Inl err \<Rightarrow>
          discovery_loop e yosys gold_file gate_file module_name use_induct pairs correspondences)"

section \<open>trace\_fifo\_signals.py: parse\_chisel\_locations and the location column\<close>

text \<open>
  One attempt of \<open>:(\d+):(\d+)(?![,}])\<close> at the start of a string: groups 1 and 2
  and what is left behind the match.  The first run of digits must be the
  longest, since a colon has to follow it.  The second is the longest too,
  unless a comma or a closing brace follows: then the lookahead fails, the run
  gives back its last digit, and with a digit next the lookahead holds; a run of
  one digit has nothing to give back, and the attempt fails.
\<close>

definition match_simple_at :: "string \<Rightarrow> ((string \<times> string) \<times> string) option" where
  "match_simple_at s =
     (case s of
        [] \<Rightarrow> None
      | c # r \<Rightarrow>
          (let ds1 = takeWhile isdigit r; r1 = dropWhile isdigit r in
           if c \<noteq> CHR '':'' \<or> ds1 = [] then None
           else (case r1 of
                   [] \<Rightarrow> None
                 | c1 # r2 \<Rightarrow>
                     (let ds2 = takeWhile isdigit r2; r3 = dropWhile isdigit r2 in
                      if c1 \<noteq> CHR '':'' \<or> ds2 = [] then None
                      else if r3 = [] \<or> (hd r3 \<noteq> CHR '','' \<and> hd r3 \<noteq> CHR ''}'')
                        then Some ((ds1, ds2), r3)
                      else if butlast ds2 = [] then None
                      else Some ((ds1, butlast ds2), last ds2 # r3)))))"

text \<open>
  \<open>re.findall\<close>: after a match the scan goes on behind it, else at the next
  character.
\<close>

function findall_simple :: "string \<Rightarrow> (string \<times> string) list" where
  "findall_simple [] = []"
| "findall_simple (c # cs) =
     (case match_simple_at (c # cs) of
        Some (groups, rest) \<Rightarrow> groups # findall_simple rest
      | None \<Rightarrow> findall_simple cs)"
  by pat_completeness auto
termination
proof (relation "measure length")
  fix c :: char and cs :: string and x2 :: "(string \<times> string) \<times> string"
    and groups :: "string \<times> string" and rest :: string
  assume m: "match_simple_at (c # cs) = Some x2" and x: "(groups, rest) = x2"
  have d: "length (dropWhile isdigit xs) \<le> length xs" for xs :: string
    by (rule length_dropWhile_le)
  have "length rest \<le> length cs"
  proof (cases "dropWhile isdigit cs")
    case Nil
    show ?thesis using m x unfolding match_simple_at_def Let_def list.case Nil
      by (simp split: if_splits)
  next
    case (Cons c1 r2)
    have l1: "Suc (length r2) \<le> length cs"
      using d [of cs] Cons by simp
    have "takeWhile isdigit r2 \<noteq> [] \<Longrightarrow> length (dropWhile isdigit r2) < length r2"
      by (cases r2) (auto simp: le_imp_less_Suc length_dropWhile_le split: if_splits)
    then show ?thesis
      using m x Cons l1 d [of r2]
      by (auto simp: match_simple_at_def Let_def split: if_splits)
  qed
  then show "(rest, c # cs) \<in> measure length" by simp
qed simp_all

text \<open>
  One attempt of \<open>:(\d+):\{([0-9,]+)\}\<close>: each run is the longest, since a
  character outside its class has to follow it.
\<close>

definition is_col_char :: "char \<Rightarrow> bool" where
  "is_col_char c = (isdigit c \<or> c = CHR '','')"

definition match_brace_at :: "string \<Rightarrow> ((string \<times> string) \<times> string) option" where
  "match_brace_at s =
     (case s of
        [] \<Rightarrow> None
      | c # r \<Rightarrow>
          (let ds1 = takeWhile isdigit r; r1 = dropWhile isdigit r in
           if c \<noteq> CHR '':'' \<or> ds1 = [] \<or> \<not> startswith r1 '':{'' then None
           else (let cols = takeWhile is_col_char (drop 2 r1);
                     r3 = dropWhile is_col_char (drop 2 r1) in
                 if cols = [] then None
                 else (case r3 of
                         [] \<Rightarrow> None
                       | c3 # r4 \<Rightarrow> if c3 = CHR ''}'' then Some ((ds1, cols), r4) else None))))"

function findall_brace :: "string \<Rightarrow> (string \<times> string) list" where
  "findall_brace [] = []"
| "findall_brace (c # cs) =
     (case match_brace_at (c # cs) of
        Some (groups, rest) \<Rightarrow> groups # findall_brace rest
      | None \<Rightarrow> findall_brace cs)"
  by pat_completeness auto
termination
proof (relation "measure length")
  fix c :: char and cs :: string and x2 :: "(string \<times> string) \<times> string"
    and groups :: "string \<times> string" and rest :: string
  assume m: "match_brace_at (c # cs) = Some x2" and x: "(groups, rest) = x2"
  have d: "length (dropWhile P xs) \<le> length xs" for xs :: string and P
    by (rule length_dropWhile_le)
  have "length rest \<le> length (dropWhile is_col_char (drop 2 (dropWhile isdigit cs)))"
    using m x by (auto simp: match_brace_at_def Let_def split: if_splits list.splits)
  also have "\<dots> \<le> length (drop 2 (dropWhile isdigit cs))"
    by (rule d)
  also have "\<dots> \<le> length cs"
    using d [of isdigit cs] by simp
  finally show "(rest, c # cs) \<in> measure length" by simp
qed simp_all

text \<open>
  The two loops of \<open>parse_chisel_locations\<close> with their variable \<open>locs\<close>; \<open>int\<close> of
  an empty column raises \<open>ValueError\<close>.
\<close>

fun simple_loop :: "(string \<times> string) list \<Rightarrow> (nat \<times> nat) list \<Rightarrow> (nat \<times> nat) list" where
  "simple_loop [] locs = locs"
| "simple_loop ((line, col) # ms) locs =
     simple_loop ms (locs @ [(int_of_digits line, int_of_digits col)])"

fun cols_loop :: "string \<Rightarrow> string list \<Rightarrow> (nat \<times> nat) list \<Rightarrow> py_error + (nat \<times> nat) list" where
  "cols_loop line [] locs = Inr locs"
| "cols_loop line (col # cols) locs =
     (if col = [] then Inl ValueError
      else cols_loop line cols (locs @ [(int_of_digits line, int_of_digits col)]))"

fun brace_loop :: "(string \<times> string) list \<Rightarrow> (nat \<times> nat) list \<Rightarrow> py_error + (nat \<times> nat) list" where
  "brace_loop [] locs = Inr locs"
| "brace_loop ((line, cols) # ms) locs =
     (case cols_loop line (split_on CHR '','' cols) locs of
        Inl err \<Rightarrow> Inl err
      | Inr locs' \<Rightarrow> brace_loop ms locs')"

definition parse_chisel_locations :: "string \<Rightarrow> py_error + (nat \<times> nat) list" where
  "parse_chisel_locations loc_string =
     brace_loop (findall_brace loc_string) (simple_loop (findall_simple loc_string) [])"






section \<open>Annotations in the two formats\<close>

text \<open>
  The text of the grouped form \<open>:line:{c1,c2,...}\<close> for a line and its columns, and
  the pairs it stands for; an annotation of grouped forms is a path followed by
  grouped forms joined with a comma and a space.
\<close>

definition cols_text :: "nat list \<Rightarrow> string" where
  "cols_text cols = join '','' (map str_nat cols)"

definition grouped_form :: "nat \<times> nat list \<Rightarrow> string" where
  "grouped_form g = (case g of (line, cols) \<Rightarrow> '':'' @ str_nat line @ '':{'' @ cols_text cols @ ''}'')"


section \<open>Example inputs\<close>

text \<open>
  A working directory \<open>/w\<close> in which every design file holds the module \<open>Fifo\<close> and
  a second module, a Yosys that answers every script with the same output, gold
  and gate wires, and dumps.
\<close>

definition example_env :: env where
  "example_env =
     \<lparr>abspath = (\<lambda>p. ''/w/'' @ p),
      read_lines = (\<lambda>f. Some [''module Fifo('', ''endmodule'', ''module Helper('', ''endmodule''])\<rparr>"

definition completes_with :: "string \<Rightarrow> backend" where
  "completes_with out = (\<lambda>script. Completed out [])"

definition wire_a :: wire where
  "wire_a = (backslash # ''gold.a'', 8, Some ''/w/gold.sv:10.3-10.9'', Some ''a'')"

definition wire_b :: wire where
  "wire_b = (backslash # ''gold.b'', 8, Some ''/w/gold.sv:11.3-11.9'', Some ''b'')"

definition wire_c :: wire where
  "wire_c = (backslash # ''gold.c'', 4, Some ''/w/gold.sv:12.3-12.9'', Some ''c'')"

definition example_script0 :: string where
  "example_script0 =
     miter_text ''/w/gold.sv'' ''delete Helper'' ''/w/gate.sv'' ''delete Helper'' ''Fifo''"

definition gate_x :: wire where
  "gate_x = (backslash # ''gate.x'', 8, Some ''/w/gate.sv:21.23-21.39'', Some ''x'')"

definition gate_y :: wire where
  "gate_y = (backslash # ''gate.y'', 8, Some ''/w/gate.sv:22.5-22.9'', Some ''y'')"

definition gate_z :: wire where
  "gate_z = (backslash # ''gate.z'', 4, Some ''/w/gate.sv:21.23-21.39|/w/gate.sv:30.1-30.4'', None)"

definition gate_nosrc :: wire where
  "gate_nosrc = (backslash # ''gate.n'', 8, None, Some ''n'')"

definition example_dump_nosrc :: string where
  "example_dump_nosrc =
     ''attribute '' @ [backslash] @ ''hdlname '' @ [dquote] @ ''gate n'' @ [dquote] @ [newline]
     @ ''wire width 8 '' @ [backslash] @ ''gate.n'' @ [newline]"

definition gold_clock :: wire where
  "gold_clock = (backslash # ''gold.clock'', 8, Some ''/w/gold.sv:2.9-2.14'', Some ''clock'')"

definition gold_io :: wire where
  "gold_io = (backslash # ''gold.io_in'', 8, Some ''/w/gold.sv:3.9-3.14'', Some ''io_in'')"

definition gold_mux :: wire where
  "gold_mux = (''$procmux$12_Y'', 8, Some ''/w/gold.sv:14.3-14.9'', None)"

definition gold_next :: wire where
  "gold_next = (''$0'' @ [backslash] @ ''state[7:0]'', 8, Some ''/w/gold.sv:15.3-15.9'', None)"

definition example_gold_table :: "wire list" where
  "example_gold_table = [wire_a, gold_clock, gold_io, wire_c, gold_mux, wire_b, gold_next]"

definition example_dump :: string where
  "example_dump =
     ''attribute '' @ [backslash] @ ''src '' @ [dquote] @ ''/w/gate.sv:22.5-22.9'' @ [dquote] @ [newline]
     @ ''attribute '' @ [backslash] @ ''hdlname '' @ [dquote] @ ''gate y'' @ [dquote] @ [newline]
     @ ''wire width 8 '' @ [backslash] @ ''gate.y'' @ [newline]
     @ ''attribute '' @ [backslash] @ ''hdlname '' @ [dquote] @ ''gate n'' @ [dquote] @ [newline]
     @ ''wire width 8 '' @ [backslash] @ ''gate.n'' @ [newline]
     @ ''attribute '' @ [backslash] @ ''src '' @ [dquote] @ ''/w/gold.sv:10.3-10.9'' @ [dquote] @ [newline]
     @ ''attribute '' @ [backslash] @ ''hdlname '' @ [dquote] @ ''gold a'' @ [dquote] @ [newline]
     @ ''wire width 8 '' @ [backslash] @ ''gold.a'' @ [newline]"

definition example_dump_head :: string where
  "example_dump_head =
     ''attribute '' @ [backslash] @ ''hdlname '' @ [dquote] @ ''gate y'' @ [dquote] @ [newline]
     @ ''  end''"

definition example_dump_tail :: string where
  "example_dump_tail =
     ''attribute '' @ [backslash] @ ''src '' @ [dquote] @ ''/w/gate.sv:22.5-22.9'' @ [dquote] @ [newline]
     @ ''  attribute '' @ [backslash] @ ''init 0'' @ [newline]
     @ ''  wire width 8 '' @ [backslash] @ ''gate.y'' @ [newline]"

text \<open>
  A Yosys that runs out of time on the script that adds the pair \<open>a\<close>, \<open>b\<close> and
  reports every other pair proven, and one whose status report says that the
  added cells are unproven.
\<close>

definition proven_output :: string where
  "proven_output =
     ''1 objects'' @ [newline] @ ''2 objects'' @ [newline] @ ''Of those cells 2 are proven''"

definition unproven_output :: string where
  "unproven_output =
     ''1 objects'' @ [newline] @ ''2 objects'' @ [newline]
     @ ''Unproven $equiv $auto$equiv_add$7: '' @ [backslash] @ ''sum_gold '' @ [backslash] @ ''sum_gate''
     @ [newline] @ ''Of those cells 1 are proven''"

definition expires_on_a_b :: backend where
  "expires_on_a_b =
     (\<lambda>script. if str_in (''equiv_add '' @ [backslash] @ ''a_gold '' @ [backslash] @ ''b_gate'') script
                then Expired else Completed proven_output [])"

text \<open>
  A Yosys that cannot be started for the script that adds the pair \<open>a\<close>, \<open>b\<close>, and
  a dump whose two gold wires carry a provenance and no origin tag.
\<close>

definition fails_on_a_b :: backend where
  "fails_on_a_b =
     (\<lambda>script. if str_in (''equiv_add '' @ [backslash] @ ''a_gold '' @ [backslash] @ ''b_gate'') script
                then Failed else Completed proven_output [])"

definition gold_untagged_io :: wire where
  "gold_untagged_io = (backslash # ''io_in'', 8, Some ''/w/gold.sv:3.9-3.14'', None)"

definition gold_untagged_clock :: wire where
  "gold_untagged_clock = (backslash # ''clock'', 1, Some ''/w/gold.sv:2.9-2.14'', None)"

definition example_dump_untagged :: string where
  "example_dump_untagged =
     ''attribute '' @ [backslash] @ ''src '' @ [dquote] @ ''/w/gold.sv:3.9-3.14'' @ [dquote] @ [newline]
     @ ''wire width 8 input 2 '' @ [backslash] @ ''io_in'' @ [newline]
     @ ''attribute '' @ [backslash] @ ''src '' @ [dquote] @ ''/w/gold.sv:2.9-2.14'' @ [dquote] @ [newline]
     @ ''wire input 1 '' @ [backslash] @ ''clock'' @ [newline]"

section \<open>Facts about the string functions\<close>

lemma startswith_iff: "startswith s p \<longleftrightarrow> (\<exists>r. s = p @ r)"
  by (induction s p rule: startswith.induct) auto

lemma str_in_iff: "str_in needle hay \<longleftrightarrow> (\<exists>pre post. hay = pre @ needle @ post)"
proof (induction hay)
  case Nil
  then show ?case by auto
next
  case (Cons c cs)
  show ?case
  proof
    assume "str_in needle (c # cs)"
    then consider "startswith (c # cs) needle" | "str_in needle cs" by auto
    then show "\<exists>pre post. c # cs = pre @ needle @ post"
    proof cases
      case 1
      then obtain r where "c # cs = needle @ r" by (auto simp: startswith_iff)
      then have "c # cs = [] @ needle @ r" by simp
      then show ?thesis by blast
    next
      case 2
      then obtain pre post where "cs = pre @ needle @ post" using Cons.IH by auto
      then have "c # cs = (c # pre) @ needle @ post" by simp
      then show ?thesis by blast
    qed
  next
    assume "\<exists>pre post. c # cs = pre @ needle @ post"
    then obtain pre post where eq: "c # cs = pre @ needle @ post" by auto
    show "str_in needle (c # cs)"
    proof (cases pre)
      case Nil
      then have "startswith (c # cs) needle" using eq by (auto simp: startswith_iff)
      then show ?thesis by simp
    next
      case (Cons a pre')
      then have "cs = pre' @ needle @ post" using eq by simp
      then have "str_in needle cs" using Cons.IH by blast
      then show ?thesis by simp
    qed
  qed
qed


lemma startswith_prefix: "startswith s p = prefix p s"
  by (auto simp: startswith_iff prefix_def)

lemma str_in_sublist: "str_in needle hay = sublist needle hay"
  by (auto simp: str_in_iff sublist_def)


lemma digit_val_digit_char: "d < 10 \<Longrightarrow> digit_val (digit_char d) = d"
  by (simp add: digit_val_def digit_char_def)


lemma int_of_digits_snoc: "int_of_digits (s @ [c]) = 10 * int_of_digits s + digit_val c"
  by (simp add: int_of_digits_def)

lemma int_of_digits_str_nat: "int_of_digits (str_nat n) = n"
proof (induction n rule: str_nat.induct)
  case (1 n)
  show ?case
  proof (cases "n < 10")
    case True
    then show ?thesis
      by (subst str_nat.simps) (simp add: int_of_digits_def digit_val_digit_char)
  next
    case False
    then have "int_of_digits (str_nat (n div 10)) = n div 10" using 1 by simp
    then show ?thesis using False
      by (subst str_nat.simps) (simp add: int_of_digits_snoc digit_val_digit_char)
  qed
qed


section \<open>The result interpreter\<close>

lemma parse_results_zip:
  "result_idx \<le> length candidates \<Longrightarrow>
   parse_results candidates lines result_idx results =
     results @ zip (drop result_idx candidates) (List.map_filter marker_of lines)"
proof (induction lines arbitrary: result_idx results)
  case Nil
  then show ?case by simp
next
  case (Cons line lines)
  show ?case
  proof (cases "marker_of line")
    case None
    then have "\<not> str_in ''SUCCESS!'' line" "\<not> str_in ''FAIL!'' line"
      by (auto simp: marker_of_def split: if_splits)
    then show ?thesis using Cons None by simp
  next
    case (Some b)
    show ?thesis
    proof (cases "result_idx < length candidates")
      case True
      then have d: "drop result_idx candidates =
          candidates ! result_idx # drop (Suc result_idx) candidates"
        by (simp add: Cons_nth_drop_Suc)
      have le: "Suc result_idx \<le> length candidates" using True by simp
      show ?thesis
        using Some True d Cons.IH [OF le]
        by (auto simp: marker_of_def split: if_splits)
    next
      case False
      then have "drop result_idx candidates = []" by simp
      moreover have "result_idx \<le> length candidates" using Cons.prems .
      ultimately show ?thesis
        using Some False Cons.IH [of result_idx results]
        by (auto simp: marker_of_def split: if_splits)
    qed
  qed
qed

lemma run_proofs_Completed:
  assumes "generate_miter_script e gold_file gate_file module_name = Inr script0"
      and "yosys (add_sat_commands bounded gate_target_wire candidates script0) = Completed out err"
  shows "run_proofs e yosys gold_file gate_file module_name gate_target_wire candidates bounded =
           ([add_sat_commands bounded gate_target_wire candidates script0],
            Inr (parse_results candidates (split_on newline (out @ err)) 0 []))"
  using assms by (simp add: run_proofs_def)

lemma example_miter_script:
  "generate_miter_script example_env ''gold.sv'' ''gate.sv'' ''Fifo'' = Inr example_script0"
  by (simp add: generate_miter_script_def get_other_modules_def example_env_def match_module_def
      isspace_def isword_def example_script0_def delete_commands_def)

text \<open>
  C1, as stated: for every candidate list of size N and every output, the result
  interpreter returns exactly N results, and a marker count other than N is an
  IntegrityError.  It fails on the code: with two candidates and an output of one
  marker \<open>run_proofs\<close> returns a list of one result, and with one candidate and an
  output of two markers it returns a list as well; no exception is raised.
\<close>

theorem run_proofs_marker_count_counterexample:
  "snd (run_proofs example_env (completes_with ''SUCCESS!'') ''gold.sv'' ''gate.sv'' ''Fifo''
          ''t'' [wire_a, wire_b] False) = Inr [(wire_a, True)]
   \<and> snd (run_proofs example_env (completes_with (''FAIL!'' @ [newline] @ ''SUCCESS!''))
          ''gold.sv'' ''gate.sv'' ''Fifo'' ''t'' [wire_a] False) = Inr [(wire_a, False)]"
  by (simp add: run_proofs_def example_miter_script completes_with_def newline_def)

text \<open>
  C1, amended: when the backend completes, the result interpreter returns the
  candidates zipped positionally, in submission order, with the markers of the
  output in emission order, as far as the shorter of the two goes: the number of
  results is the minimum of N and the number of markers, markers beyond the N-th
  are ignored, candidates beyond the last marker get no result, and a count
  mismatch raises nothing.  With exactly N markers there are exactly N results.
\<close>

theorem run_proofs_results_zip:
  assumes "generate_miter_script e gold_file gate_file module_name = Inr script0"
      and "yosys (add_sat_commands bounded gate_target_wire candidates script0) = Completed out err"
  shows "snd (run_proofs e yosys gold_file gate_file module_name gate_target_wire candidates bounded)
           = Inr (zip candidates (markers (out @ err)))
         \<and> length (zip candidates (markers (out @ err)))
           = min (length candidates) (length (markers (out @ err)))
         \<and> map fst (zip candidates (markers (out @ err)))
           = take (length (markers (out @ err))) candidates
         \<and> (length (markers (out @ err)) = length candidates \<longrightarrow>
              map fst (zip candidates (markers (out @ err))) = candidates)"
proof -
  have "parse_results candidates (split_on newline (out @ err)) 0 []
          = zip candidates (markers (out @ err))"
    using parse_results_zip [of 0 candidates "split_on newline (out @ err)" "[]"]
    by (simp add: markers_def)
  then show ?thesis
    using assms by (auto simp add: run_proofs_def map_fst_zip_take min_def)
qed

theorem run_proofs_results_zip_witness:
  "generate_miter_script example_env ''gold.sv'' ''gate.sv'' ''Fifo'' = Inr example_script0
   \<and> completes_with (''FAIL!'' @ [newline] @ ''SUCCESS!'')
         (add_sat_commands False ''t'' [wire_a, wire_b] example_script0)
       = Completed (''FAIL!'' @ [newline] @ ''SUCCESS!'') []
   \<and> snd (run_proofs example_env (completes_with (''FAIL!'' @ [newline] @ ''SUCCESS!''))
          ''gold.sv'' ''gate.sv'' ''Fifo'' ''t'' [wire_a, wire_b] False)
       = Inr [(wire_a, False), (wire_b, True)]"
proof -
  have b: "completes_with (''FAIL!'' @ [newline] @ ''SUCCESS!'')
             (add_sat_commands False ''t'' [wire_a, wire_b] example_script0)
           = Completed (''FAIL!'' @ [newline] @ ''SUCCESS!'') []"
    by (simp add: completes_with_def)
  have m: "markers ((''FAIL!'' @ [newline] @ ''SUCCESS!'') @ []) = [False, True]"
    by (simp add: markers_def marker_of_def newline_def)
  show ?thesis
    using run_proofs_results_zip
            [where yosys = "completes_with (''FAIL!'' @ [newline] @ ''SUCCESS!'')",
             OF example_miter_script b]
          b example_miter_script
    by (simp only: m) simp
qed

section \<open>The dispatcher\<close>







section \<open>The target resolver\<close>

lemma find_matches_filter:
  "find_matches key ws matches =
     matches @ filter (\<lambda>(wire_name, width, src, hdlname).
                         \<exists>s. src = Some s \<and> s \<noteq> [] \<and> str_in key s) ws"
proof (induction ws arbitrary: matches)
  case Nil
  then show ?case by simp
next
  case (Cons w ws)
  obtain wire_name width src hdlname where w: "w = (wire_name, width, src, hdlname)"
    by (cases w) auto
  show ?case by (cases src) (simp_all add: w Cons.IH)
qed

lemma find_filter_hd:
  "List.find P xs = (case filter P xs of [] \<Rightarrow> None | x # ys \<Rightarrow> Some x)"
  by (induction xs) simp_all

lemma key_not_Nil: "target_src_key gate_abs line start_col end_col \<noteq> []"
  by (simp add: target_src_key_def)

lemma has_key_iff:
  "(\<exists>s. src = Some s \<and> s \<noteq> [] \<and> str_in (target_src_key a l sc ec) s)
     \<longleftrightarrow> (\<exists>s. src = Some s \<and> sublist (target_src_key a l sc ec) s)"
proof -
  have ne: "s \<noteq> []" if "sublist (target_src_key a l sc ec) s" for s
    using that key_not_Nil [of a l sc ec] by (cases s) simp_all
  show ?thesis unfolding str_in_sublist using ne by blast
qed

text \<open>
  C2: for a requested location (line, startCol, endCol) the key is the absolute
  path of the gate file, a colon, and \<open>line.startCol-line.endCol\<close> in decimal;
  \<open>find_gate_target\<close> returns, in table order, every gate wire whose provenance
  holds the key as a substring; and the target that \<open>main\<close> selects is the first
  wire of the gate table, in scan order, whose provenance holds the key.
\<close>

theorem find_gate_target_first_match:
  "target_src_key (abspath e gate_file) line start_col end_col
     = abspath e gate_file @ '':'' @ str_nat line @ ''.'' @ str_nat start_col @ ''-''
         @ str_nat line @ ''.'' @ str_nat end_col
   \<and> int_of_digits (str_nat line) = line
   \<and> int_of_digits (str_nat start_col) = start_col
   \<and> int_of_digits (str_nat end_col) = end_col
   \<and> find_gate_target e gate_ws gate_file line start_col end_col
     = filter (\<lambda>(wire_name, width, src, hdlname).
                 \<exists>s. src = Some s
                    \<and> sublist (target_src_key (abspath e gate_file) line start_col end_col) s)
         gate_ws
   \<and> resolve_target e gate_ws gate_file line start_col end_col
     = List.find (\<lambda>(wire_name, width, src, hdlname).
                    \<exists>s. src = Some s
                       \<and> sublist (target_src_key (abspath e gate_file) line start_col end_col) s)
         gate_ws"
proof -
  let ?key = "target_src_key (abspath e gate_file) line start_col end_col"
  have f: "find_gate_target e gate_ws gate_file line start_col end_col
             = filter (\<lambda>(wire_name, width, src, hdlname). \<exists>s. src = Some s \<and> sublist ?key s) gate_ws"
    by (simp add: find_gate_target_def find_matches_filter has_key_iff)
  have r: "resolve_target e gate_ws gate_file line start_col end_col
             = List.find (\<lambda>(wire_name, width, src, hdlname). \<exists>s. src = Some s \<and> sublist ?key s) gate_ws"
    unfolding resolve_target_def f find_filter_hd by (simp split: list.splits)
  show ?thesis
    using f r by (simp add: int_of_digits_str_nat) (simp add: target_src_key_def)
qed

lemma example_key: "target_src_key ''/w/gate.sv'' 21 23 39 = ''/w/gate.sv:21.23-21.39''"
  by code_simp

theorem find_gate_target_first_match_witness:
  "List.find (\<lambda>(wire_name, width, src, hdlname).
               \<exists>s. src = Some s \<and> sublist ''/w/gate.sv:21.23-21.39'' s)
      [gate_nosrc, gate_y, gate_x, gate_z] = Some gate_x
   \<and> filter (\<lambda>(wire_name, width, src, hdlname).
               \<exists>s. src = Some s \<and> sublist ''/w/gate.sv:21.23-21.39'' s)
      [gate_nosrc, gate_y, gate_x, gate_z] = [gate_x, gate_z]"
proof -
  let ?tbl = "[gate_nosrc, gate_y, gate_x, gate_z]"
  have a: "abspath example_env ''gate.sv'' = ''/w/gate.sv''"
    by (simp add: example_env_def)
  have m: "find_matches ''/w/gate.sv:21.23-21.39'' ?tbl [] = [gate_x, gate_z]"
    by (simp add: gate_nosrc_def gate_y_def gate_x_def gate_z_def)
  have f: "find_gate_target example_env ?tbl ''gate.sv'' 21 23 39 = [gate_x, gate_z]"
    by (simp only: find_gate_target_def a example_key m)
  have r: "resolve_target example_env ?tbl ''gate.sv'' 21 23 39 = Some gate_x"
    by (simp add: resolve_target_def f)
  note t = find_gate_target_first_match [of example_env "''gate.sv''" 21 23 39 ?tbl]
  have f': "[gate_x, gate_z]
              = filter (\<lambda>(wire_name, width, src, hdlname).
                          \<exists>s. src = Some s \<and> sublist ''/w/gate.sv:21.23-21.39'' s) ?tbl"
    using t unfolding a example_key f by (elim conjE)
  have r': "Some gate_x
              = List.find (\<lambda>(wire_name, width, src, hdlname).
                             \<exists>s. src = Some s \<and> sublist ''/w/gate.sv:21.23-21.39'' s) ?tbl"
    using t unfolding a example_key r by (elim conjE)
  show ?thesis using f' [symmetric] r' [symmetric] by (intro conjI)
qed

lemma available_signals_map_filter:
  "available_signals ws =
     map (\<lambda>(wire_name, width, src, hdlname).
            ''    ''
            @ ljust (case hdlname of
                       None \<Rightarrow> remove_char backslash wire_name
                     | Some h \<Rightarrow> if h = [] then remove_char backslash wire_name else h) 25
            @ '' width='' @ str_nat width
            @ ''  src='' @ src_short (case src of None \<Rightarrow> [] | Some s \<Rightarrow> s))
         (filter (\<lambda>(wire_name, width, src, hdlname). src \<noteq> None \<and> src \<noteq> Some []) ws)"
proof (induction ws)
  case Nil
  then show ?case by simp
next
  case (Cons w ws)
  obtain wire_name width src hdlname where w: "w = (wire_name, width, src, hdlname)"
    by (cases w) auto
  show ?case
    by (cases src; cases hdlname) (simp_all add: w Cons.IH)
qed

text \<open>
  C3, as stated: when no gate wire matches, the caller is given the full gate
  catalogue, every catalogued gate signal, as a non-empty diagnostic.  It fails on
  the code: for a dump whose only gate wire carries an origin tag and no
  provenance, the gate table holds that wire, no wire matches, and \<open>main\<close> prints
  the two heading lines and not one line of catalogue.
\<close>

theorem main_no_match_catalogue_counterexample:
  "fst (parse_dump example_env example_dump_nosrc ''gate.sv'' ''gold.sv'') = [gate_nosrc]
   \<and> main_steps example_env (completes_with example_dump_nosrc) ''gold.sv'' ''gate.sv'' ''Fifo''
       ''21.23-39'' 21 23 39 False
     = NoSignalFound [[], ''  Error: No signal found at location 21.23-39'',
                      ''  Available gate signals:'']"
  by code_simp

text \<open>
  C3, amended: when no gate wire matches the key, \<open>main\<close> prints the line
  \<open>Error: No signal found at location\<close> with the location, the heading
  \<open>Available gate signals:\<close> and then, in table order, one line for each gate
  wire that has a provenance, with its name (the original name when the backend
  recorded one, else the wire name without backslashes), its width and its
  shortened provenance; it then exits with status 1.  Gate wires without a
  provenance are not listed, so the catalogue may be empty.  There is no
  exception named ResolutionError: the failure is the message and the exit
  status.
\<close>

theorem main_no_match_diagnostic:
  assumes "run_yosys_dump e yosys gold_file gate_file module_name = Inr dump_text"
      and "parse_dump e dump_text gate_file gold_file = (gate_ws, gold_ws)"
      and "find_gate_target e gate_ws gate_file line_num start_col end_col = []"
  shows "main_steps e yosys gold_file gate_file module_name loc line_num start_col end_col bounded
           = NoSignalFound
               ([[], ''  Error: No signal found at location '' @ loc, ''  Available gate signals:'']
                @ map (\<lambda>(wire_name, width, src, hdlname).
                         ''    ''
                         @ ljust (case hdlname of
                                    None \<Rightarrow> remove_char backslash wire_name
                                  | Some h \<Rightarrow> if h = [] then remove_char backslash wire_name else h) 25
                         @ '' width='' @ str_nat width
                         @ ''  src='' @ src_short (case src of None \<Rightarrow> [] | Some s \<Rightarrow> s))
                    (filter (\<lambda>(wire_name, width, src, hdlname). src \<noteq> None \<and> src \<noteq> Some [])
                       gate_ws))
         \<and> exit_code (main_steps e yosys gold_file gate_file module_name loc line_num start_col
                         end_col bounded) = 1"
  using assms
  by (simp add: main_steps_def resolve_target_def no_signal_lines_def
        available_signals_map_filter)

theorem main_no_match_diagnostic_witness:
  "run_yosys_dump example_env (completes_with example_dump) ''gold.sv'' ''gate.sv'' ''Fifo''
     = Inr example_dump
   \<and> parse_dump example_env example_dump ''gate.sv'' ''gold.sv'' = ([gate_y, gate_nosrc], [wire_a])
   \<and> find_gate_target example_env [gate_y, gate_nosrc] ''gate.sv'' 21 23 39 = []
   \<and> main_steps example_env (completes_with example_dump) ''gold.sv'' ''gate.sv'' ''Fifo''
       ''21.23-39'' 21 23 39 False
     = NoSignalFound [[], ''  Error: No signal found at location 21.23-39'',
                      ''  Available gate signals:'',
                      ''    y                         width=8  src=22.5-22.9'']
   \<and> exit_code (main_steps example_env (completes_with example_dump) ''gold.sv'' ''gate.sv''
                   ''Fifo'' ''21.23-39'' 21 23 39 False) = 1"
proof -
  have h1: "run_yosys_dump example_env (completes_with example_dump) ''gold.sv'' ''gate.sv'' ''Fifo''
              = Inr example_dump"
    by (simp add: run_yosys_dump_def example_miter_script completes_with_def)
  have h2: "parse_dump example_env example_dump ''gate.sv'' ''gold.sv''
              = ([gate_y, gate_nosrc], [wire_a])"
    by code_simp
  have h3: "find_gate_target example_env [gate_y, gate_nosrc] ''gate.sv'' 21 23 39 = []"
    by code_simp
  have ev: "map (\<lambda>(wire_name, width, src, hdlname).
                   ''    ''
                   @ ljust (case hdlname of
                              None \<Rightarrow> remove_char backslash wire_name
                            | Some h \<Rightarrow> if h = [] then remove_char backslash wire_name else h) 25
                   @ '' width='' @ str_nat width
                   @ ''  src='' @ src_short (case src of None \<Rightarrow> [] | Some s \<Rightarrow> s))
              (filter (\<lambda>(wire_name, width, src, hdlname). src \<noteq> None \<and> src \<noteq> Some [])
                 [gate_y, gate_nosrc])
            = [''    y                         width=8  src=22.5-22.9'']"
    by code_simp
  note t = main_no_match_diagnostic
             [where yosys = "completes_with example_dump" and loc = "''21.23-39''"
                and bounded = False, OF h1 h2 h3]
  show ?thesis
    using h1 h2 h3 t unfolding ev by simp
qed

section \<open>The dump parser\<close>

lemma match_attribute_None:
  "\<not> startswith line ''attribute'' \<Longrightarrow> match_attribute key line = None"
  by (simp add: match_attribute_def)

lemma parse_line_clears:
  assumes "\<not> startswith (strip raw) ''attribute''"
  shows "current_src (parse_line ga go st raw) = None
         \<and> current_hdlname (parse_line ga go st raw) = None"
  using assms
  by (simp add: parse_line_def Let_def match_attribute_None reset_attributes_def
      split: option.splits prod.splits)

lemma classify_wire_tables:
  "classify_wire ga go n w (st\<lparr>gate_wires := g @ gate_wires st, gold_wires := d @ gold_wires st\<rparr>)
     = (classify_wire ga go n w st)
         \<lparr>gate_wires := g @ gate_wires (classify_wire ga go n w st),
          gold_wires := d @ gold_wires (classify_wire ga go n w st)\<rparr>"
  by (simp add: classify_wire_def Let_def)

lemma parse_line_tables:
  "parse_line ga go (st\<lparr>gate_wires := g @ gate_wires st, gold_wires := d @ gold_wires st\<rparr>) raw
     = (parse_line ga go st raw)
         \<lparr>gate_wires := g @ gate_wires (parse_line ga go st raw),
          gold_wires := d @ gold_wires (parse_line ga go st raw)\<rparr>"
  by (simp add: parse_line_def Let_def classify_wire_tables reset_attributes_def
      split: option.splits prod.splits)

lemma parse_lines_tables:
  "parse_lines ga go (st\<lparr>gate_wires := g @ gate_wires st, gold_wires := d @ gold_wires st\<rparr>) lines
     = (parse_lines ga go st lines)
         \<lparr>gate_wires := g @ gate_wires (parse_lines ga go st lines),
          gold_wires := d @ gold_wires (parse_lines ga go st lines)\<rparr>"
proof (induction lines arbitrary: st g d)
  case Nil
  then show ?case by (simp add: parse_lines_def)
next
  case (Cons l lines)
  have "parse_lines ga go (st\<lparr>gate_wires := g @ gate_wires st, gold_wires := d @ gold_wires st\<rparr>) (l # lines)
      = parse_lines ga go ((parse_line ga go st l)
         \<lparr>gate_wires := g @ gate_wires (parse_line ga go st l),
          gold_wires := d @ gold_wires (parse_line ga go st l)\<rparr>) lines"
    by (simp add: parse_lines_def parse_line_tables)
  also have "\<dots> = (parse_lines ga go (parse_line ga go st l) lines)
         \<lparr>gate_wires := g @ gate_wires (parse_lines ga go (parse_line ga go st l) lines),
          gold_wires := d @ gold_wires (parse_lines ga go (parse_line ga go st l) lines)\<rparr>"
    by (rule Cons.IH)
  finally show ?case by (simp add: parse_lines_def)
qed

lemma cleared_state:
  assumes "current_src st = None" "current_hdlname st = None"
  shows "st = initial_pstate\<lparr>gate_wires := gate_wires st @ gate_wires initial_pstate,
                             gold_wires := gold_wires st @ gold_wires initial_pstate\<rparr>"
  using assms by (cases st) (simp add: initial_pstate_def)

lemma parse_lines_from_cleared:
  assumes "current_src st = None" "current_hdlname st = None"
  shows "gate_wires (parse_lines ga go st lines)
           = gate_wires st @ gate_wires (parse_lines ga go initial_pstate lines)
         \<and> gold_wires (parse_lines ga go st lines)
           = gold_wires st @ gold_wires (parse_lines ga go initial_pstate lines)"
proof -
  have "parse_lines ga go st lines
          = parse_lines ga go (initial_pstate\<lparr>gate_wires := gate_wires st @ gate_wires initial_pstate,
                             gold_wires := gold_wires st @ gold_wires initial_pstate\<rparr>) lines"
    using cleared_state [OF assms] by simp
  then show ?thesis by (simp add: parse_lines_tables)
qed

lemma split_on_not_Nil: "split_on c s \<noteq> []"
  by (induction s) (auto split: list.splits)

lemma split_on_append:
  "split_on c (a @ c # b) = split_on c a @ split_on c b"
  using split_on_not_Nil [of c]
  by (induction a) (auto split: list.splits)


lemma parse_lines_after_cleared_line:
  assumes "\<not> startswith (strip l) ''attribute''"
  shows "gate_wires (parse_lines ga go st (pre @ [l] @ rest))
           = gate_wires (parse_lines ga go st (pre @ [l]))
             @ gate_wires (parse_lines ga go initial_pstate rest)
         \<and> gold_wires (parse_lines ga go st (pre @ [l] @ rest))
           = gold_wires (parse_lines ga go st (pre @ [l]))
             @ gold_wires (parse_lines ga go initial_pstate rest)"
proof -
  let ?s1 = "parse_lines ga go st (pre @ [l])"
  have s1: "?s1 = parse_line ga go (parse_lines ga go st pre) l"
    by (simp add: parse_lines_def)
  have c: "current_src ?s1 = None" "current_hdlname ?s1 = None"
    using parse_line_clears [OF assms] unfolding s1 by simp_all
  have "parse_lines ga go st (pre @ [l] @ rest) = parse_lines ga go ?s1 rest"
    by (simp add: parse_lines_def)
  then show ?thesis
    using parse_lines_from_cleared [OF c] by simp
qed

text \<open>
  C6: in \<open>parse_dump\<close> a line that does not start with \<open>attribute\<close>, a wire
  declaration or any other line, leaves both pending attributes cleared, and
  does nothing else but catalogue the wire, if it declares one, with the
  attributes pending at that moment.  Hence whatever follows such a line is
  parsed as if the dump began there: the wires catalogued from a dump
  \<open>a\<close>, newline, \<open>b\<close>, where the last line of \<open>a\<close> does not start with \<open>attribute\<close>, are
  those of \<open>a\<close> followed by those of \<open>b\<close> parsed alone.  An attribute read before
  that line attaches to no declaration after it, and a declaration gets only
  the attributes of the attribute lines that directly precede it.
\<close>

theorem parse_dump_pending_attributes:
  assumes "\<not> startswith (strip (last (split_on newline a))) ''attribute''"
  shows "current_src (parse_line ga go st (last (split_on newline a))) = None
         \<and> current_hdlname (parse_line ga go st (last (split_on newline a))) = None
         \<and> parse_line ga go st (last (split_on newline a))
           = reset_attributes
               (case match_wire (strip (last (split_on newline a))) of
                  None \<Rightarrow> st
                | Some (w, nm) \<Rightarrow>
                    classify_wire ga go (strip nm)
                      (case w of Some ds \<Rightarrow> int_of_digits ds | None \<Rightarrow> 1) st)
         \<and> parse_dump e (a @ [newline] @ b) gate_file gold_file
           = (fst (parse_dump e a gate_file gold_file) @ fst (parse_dump e b gate_file gold_file),
              snd (parse_dump e a gate_file gold_file) @ snd (parse_dump e b gate_file gold_file))"
proof -
  let ?l = "last (split_on newline a)"
  let ?pre = "butlast (split_on newline a)"
  have la: "split_on newline a = ?pre @ [?l]"
    using split_on_not_Nil [of newline a] by simp
  have "?pre @ [?l] @ split_on newline b = (?pre @ [?l]) @ split_on newline b"
    by simp
  also have "\<dots> = split_on newline a @ split_on newline b"
    by (simp only: append_butlast_last_id [OF split_on_not_Nil])
  also have "\<dots> = split_on newline (a @ [newline] @ b)"
    by (simp add: split_on_append)
  finally have sp: "split_on newline (a @ [newline] @ b) = ?pre @ [?l] @ split_on newline b"
    by (rule sym)
  have step: "parse_line ga go st ?l
           = reset_attributes
               (case match_wire (strip ?l) of
                  None \<Rightarrow> st
                | Some (w, nm) \<Rightarrow>
                    classify_wire ga go (strip nm)
                      (case w of Some ds \<Rightarrow> int_of_digits ds | None \<Rightarrow> 1) st)"
    using assms
    by (simp add: parse_line_def Let_def match_attribute_None split: option.splits prod.splits)
  have loc: "parse_dump e (a @ [newline] @ b) gate_file gold_file
           = (fst (parse_dump e a gate_file gold_file) @ fst (parse_dump e b gate_file gold_file),
              snd (parse_dump e a gate_file gold_file) @ snd (parse_dump e b gate_file gold_file))"
    using parse_lines_after_cleared_line
            [OF assms, of "abspath e gate_file" "abspath e gold_file" initial_pstate ?pre
               "split_on newline b"]
    unfolding parse_dump_def Let_def sp la [symmetric] by simp
  show ?thesis
    using parse_line_clears [OF assms, of ga go st] step loc by simp
qed

theorem parse_dump_pending_attributes_witness:
  "\<not> startswith (strip (last (split_on newline example_dump_head))) ''attribute''
   \<and> parse_dump example_env (example_dump_head @ [newline] @ example_dump_tail) ''gate.sv'' ''gold.sv''
     = ([(backslash # ''gate.y'', 8, Some ''/w/gate.sv:22.5-22.9'', None)], [])"
proof -
  have h: "\<not> startswith (strip (last (split_on newline example_dump_head))) ''attribute''"
    by code_simp
  have a: "parse_dump example_env example_dump_head ''gate.sv'' ''gold.sv'' = ([], [])"
    by code_simp
  have b: "parse_dump example_env example_dump_tail ''gate.sv'' ''gold.sv''
             = ([(backslash # ''gate.y'', 8, Some ''/w/gate.sv:22.5-22.9'', None)], [])"
    by code_simp
  show ?thesis
    using h parse_dump_pending_attributes
              [OF h, of "''/w/gate.sv''" "''/w/gold.sv''" initial_pstate example_env
                 example_dump_tail "''gate.sv''" "''gold.sv''"]
    unfolding a b by simp
qed

section \<open>The candidate filter\<close>

lemma filter_loop_filter:
  "filter_loop ws candidates = candidates @ filter (\<lambda>w. \<not> skipped w) ws"
  by (induction ws arbitrary: candidates) simp_all

lemma filter_gold_candidates_filter:
  "filter_gold_candidates ws = filter (\<lambda>w. \<not> skipped w) ws"
  by (simp add: filter_gold_candidates_def filter_loop_filter)

lemma width_comprehension_filter:
  "[(w, wd, s, h) . (w, wd, s, h) \<leftarrow> xs, wd = n] = filter (\<lambda>(w, wd, s, h). wd = n) xs"
  by (induction xs) auto

lemma width_candidates_filter_skipped:
  "width_candidates ws w = filter (\<lambda>(wn, wd, s, h). \<not> skipped (wn, wd, s, h) \<and> wd = w) ws"
  unfolding width_candidates_def width_comprehension_filter filter_gold_candidates_filter
  by (simp add: case_prod_unfold)

lemma not_skipped_iff:
  "\<not> skipped (wire_name, width, src, orig_name) \<longleftrightarrow>
     orig_name \<noteq> Some ''clock'' \<and> orig_name \<noteq> Some ''reset''
     \<and> \<not> (\<exists>n. orig_name = Some n \<and> prefix ''io_'' n)
     \<and> \<not> sublist ''clk2fflogic'' wire_name
     \<and> \<not> prefix (backslash # ''in_'') wire_name
     \<and> \<not> prefix (backslash # ''trigger'') wire_name
     \<and> \<not> prefix (backslash # ''gold_'') wire_name
     \<and> \<not> prefix (backslash # ''gate_'') wire_name
     \<and> \<not> sublist ''$procmux$'' wire_name
     \<and> \<not> sublist ''rtlil.cc'' wire_name
     \<and> \<not> sublist (''$0'' @ [backslash]) wire_name"
proof (cases orig_name)
  case None
  then show ?thesis
    by (simp add: skipped_def startswith_prefix str_in_sublist)
next
  case (Some n)
  have "\<not> prefix ''io_'' []" by simp
  then show ?thesis using Some
    by (cases "n = []") (simp_all add: skipped_def startswith_prefix str_in_sublist)
qed

text \<open>
  What the candidate filter of step 4 returns for a gold table and a target
  width w: the wires of the table, in table order, whose recorded original name
  is not \<open>clock\<close> or \<open>reset\<close> and does not start with \<open>io_\<close>, whose wire name
  neither holds \<open>clk2fflogic\<close> or \<open>rtlil.cc\<close> (internals of the state conversion
  and flattening), nor \<open>$procmux$\<close> (lowered multiplexers), nor \<open>$0\\<close> (next-state
  temporaries), nor starts with \<open>\in_\<close>, \<open>\trigger\<close>, \<open>\gold_\<close> or \<open>\gate_\<close> (the
  miter's own wires), and whose width is w.  The result is a subsequence of the
  table.  The tests for clock, reset and port names read the original name only:
  a wire without one passes them whatever its wire name is.
\<close>

theorem width_candidates_subsequence:
  "width_candidates gold_ws w =
     filter (\<lambda>(wire_name, width, src, orig_name).
               orig_name \<noteq> Some ''clock'' \<and> orig_name \<noteq> Some ''reset''
               \<and> \<not> (\<exists>n. orig_name = Some n \<and> prefix ''io_'' n)
               \<and> \<not> sublist ''clk2fflogic'' wire_name
               \<and> \<not> prefix (backslash # ''in_'') wire_name
               \<and> \<not> prefix (backslash # ''trigger'') wire_name
               \<and> \<not> prefix (backslash # ''gold_'') wire_name
               \<and> \<not> prefix (backslash # ''gate_'') wire_name
               \<and> \<not> sublist ''$procmux$'' wire_name
               \<and> \<not> sublist ''rtlil.cc'' wire_name
               \<and> \<not> sublist (''$0'' @ [backslash]) wire_name
               \<and> width = w)
       gold_ws
   \<and> subseq (width_candidates gold_ws w) gold_ws"
proof -
  have "width_candidates gold_ws w
          = filter (\<lambda>(wn, wd, s, h). \<not> skipped (wn, wd, s, h) \<and> wd = w) gold_ws"
    by (rule width_candidates_filter_skipped)
  then show ?thesis
    by (simp only: not_skipped_iff subseq_filter_left conj_assoc simp_thms)
qed

lemma example_width_candidates: "width_candidates example_gold_table 8 = [wire_a, wire_b]"
  by code_simp

theorem width_candidates_subsequence_witness:
  "width_candidates example_gold_table 8 = [wire_a, wire_b]
   \<and> subseq [wire_a, wire_b] example_gold_table"
  using width_candidates_subsequence [of example_gold_table 8]
  by (simp only: example_width_candidates) simp

text \<open>
  C4: the candidate filter returns the wires that are not clock or reset, not
  named as I/O ports, not internals, and of the target's width.  The code breaks
  it for wires without an origin tag: \<open>filter_gold_candidates\<close> tests clock, reset
  and \<open>io_\<close> under \<open>if orig_name\<close> only, and its variable \<open>name\<close>, the original name
  or else the wire name, is assigned and never read.  The dump below declares
  the gold wires \<open>\io_in\<close> and \<open>\clock\<close> with a provenance in the gold file and no
  origin tag; \<open>parse_dump\<close> catalogues both on the gold side, and both are
  returned as candidates for their widths.
\<close>

theorem filter_keeps_untagged_port_names:
  "snd (parse_dump example_env example_dump_untagged ''gate.sv'' ''gold.sv'')
     = [gold_untagged_io, gold_untagged_clock]
   \<and> filter_gold_candidates [gold_untagged_io, gold_untagged_clock]
     = [gold_untagged_io, gold_untagged_clock]
   \<and> width_candidates [gold_untagged_io, gold_untagged_clock] 8 = [gold_untagged_io]
   \<and> width_candidates [gold_untagged_io, gold_untagged_clock] 1 = [gold_untagged_clock]"
  by code_simp

text \<open>
  C8: the candidate filter is idempotent, both \<open>filter_gold_candidates\<close> alone and
  together with the width test of step 4: applied to its own output it returns
  that output.
\<close>

theorem filter_gold_candidates_idempotent:
  "filter_gold_candidates (filter_gold_candidates gold_ws) = filter_gold_candidates gold_ws
   \<and> width_candidates (width_candidates gold_ws w) w = width_candidates gold_ws w"
  by (simp add: filter_gold_candidates_filter width_candidates_filter_skipped)

lemma example_filter_gold_candidates:
  "filter_gold_candidates example_gold_table = [wire_a, wire_c, wire_b]"
  by code_simp

theorem filter_gold_candidates_idempotent_witness:
  "filter_gold_candidates [wire_a, wire_c, wire_b] = [wire_a, wire_c, wire_b]
   \<and> width_candidates [wire_a, wire_b] 8 = [wire_a, wire_b]"
  using filter_gold_candidates_idempotent [of example_gold_table 8]
  by (simp only: example_filter_gold_candidates example_width_candidates)

section \<open>Cross discovery\<close>

lemma discovery_loop_filter:
  "discovery_loop e yosys gold_file gate_file module_name use_induct pairs correspondences =
     correspondences
     @ filter (\<lambda>(gold_sig, gate_sig, width).
                 snd (test_equivalence e yosys gold_file gate_file module_name gold_sig gate_sig
                        use_induct) = Inr True)
         pairs"
proof (induction pairs arbitrary: correspondences)
  case Nil
  then show ?case by simp
next
  case (Cons p pairs)
  obtain gold_sig gate_sig width where p: "p = (gold_sig, gate_sig, width)"
    by (cases p) auto
  show ?case
    by (simp add: p Cons.IH split: sum.splits bool.splits)
qed

lemma judge_output_no_status: "search_proven out = None \<Longrightarrow> \<not> judge_output out"
  by (simp add: judge_output_def split: list.splits)

text \<open>
  C9, amended: in cross discovery, take a pair of different names whose script
  is given to the backend, and let the backend run out of time, end without its
  status line, or fail to run.  On a timeout and on a run without status line
  \<open>test_equivalence\<close> returns false; when the process cannot be run, the exception
  leaves \<open>test_equivalence\<close> and is caught by the loop of \<open>main\<close>.  In each case the
  pair is not recorded, and the loop records for all the other pairs exactly
  what it records without that pair in the list.
\<close>

theorem discovery_failed_query_isolated:
  assumes "gold_sig \<noteq> gate_sig"
      and "get_other_modules e gold_file module_name = Inr gold_others"
      and "get_other_modules e gate_file module_name = Inr gate_others"
      and "script = equiv_script gold_file gate_file module_name
                      (delete_commands gold_others)
                      (delete_commands gate_others)
                      gold_sig gate_sig (if use_induct then ''equiv_induct'' else ''equiv_simple'')"
      and "yosys script = Expired \<or> yosys script = Failed
           \<or> (\<exists>out err. yosys script = Completed out err \<and> search_proven out = None)"
  shows "snd (test_equivalence e yosys gold_file gate_file module_name gold_sig gate_sig use_induct)
           \<noteq> Inr True
         \<and> (yosys script \<noteq> Failed \<longrightarrow>
              test_equivalence e yosys gold_file gate_file module_name gold_sig gate_sig use_induct
                = ([script], Inr False))
         \<and> (yosys script = Failed \<longrightarrow>
              test_equivalence e yosys gold_file gate_file module_name gold_sig gate_sig use_induct
                = ([script], Inl OSError))
         \<and> discovery_loop e yosys gold_file gate_file module_name use_induct
             (pre @ [(gold_sig, gate_sig, width)] @ post) correspondences
           = discovery_loop e yosys gold_file gate_file module_name use_induct
               (pre @ post) correspondences"
proof -
  have te: "test_equivalence e yosys gold_file gate_file module_name gold_sig gate_sig use_induct
              = (case yosys script of
                   Expired \<Rightarrow> ([script], Inr False)
                 | Failed \<Rightarrow> ([script], Inl OSError)
                 | Completed out err \<Rightarrow> ([script], Inr (judge_output out)))"
    unfolding assms(4)
    using assms(1) by (simp add: test_equivalence_def Let_def assms(2) assms(3))
  have t: "snd (test_equivalence e yosys gold_file gate_file module_name gold_sig gate_sig use_induct)
             \<noteq> Inr True"
    using assms(5) unfolding te by (auto simp: judge_output_no_status)
  have x: "yosys script \<noteq> Failed \<longrightarrow>
             test_equivalence e yosys gold_file gate_file module_name gold_sig gate_sig use_induct
               = ([script], Inr False)"
    using assms(5) unfolding te by (auto simp: judge_output_no_status)
  have y: "yosys script = Failed \<longrightarrow>
             test_equivalence e yosys gold_file gate_file module_name gold_sig gate_sig use_induct
               = ([script], Inl OSError)"
    unfolding te by simp
  show ?thesis
    using t x y by (simp add: discovery_loop_filter)
qed

theorem discovery_failed_query_isolated_witness:
  "''a'' \<noteq> ''b''
   \<and> get_other_modules example_env ''gold.sv'' ''Fifo'' = Inr [''Helper'']
   \<and> expires_on_a_b
       (equiv_script ''gold.sv'' ''gate.sv'' ''Fifo'' ''delete Helper'' ''delete Helper'' ''a'' ''b''
          ''equiv_induct'') = Expired
   \<and> snd (test_equivalence example_env expires_on_a_b ''gold.sv'' ''gate.sv'' ''Fifo'' ''a'' ''b'' True)
     = Inr False
   \<and> discovery_loop example_env expires_on_a_b ''gold.sv'' ''gate.sv'' ''Fifo'' True
       [(''x'', ''y'', 8), (''a'', ''b'', 8), (''p'', ''q'', 4)] []
     = [(''x'', ''y'', 8), (''p'', ''q'', 4)]
   \<and> fails_on_a_b
       (equiv_script ''gold.sv'' ''gate.sv'' ''Fifo'' ''delete Helper'' ''delete Helper'' ''a'' ''b''
          ''equiv_induct'') = Failed
   \<and> snd (test_equivalence example_env fails_on_a_b ''gold.sv'' ''gate.sv'' ''Fifo'' ''a'' ''b'' True)
     = Inl OSError
   \<and> discovery_loop example_env fails_on_a_b ''gold.sv'' ''gate.sv'' ''Fifo'' True
       [(''x'', ''y'', 8), (''a'', ''b'', 8), (''p'', ''q'', 4)] []
     = [(''x'', ''y'', 8), (''p'', ''q'', 4)]"
proof -
  let ?script = "equiv_script ''gold.sv'' ''gate.sv'' ''Fifo'' ''delete Helper'' ''delete Helper''
                   ''a'' ''b'' ''equiv_induct''"
  have h1: "''a'' \<noteq> ''b''" by simp
  have h2: "get_other_modules example_env ''gold.sv'' ''Fifo'' = Inr [''Helper'']"
    by code_simp
  have h3: "get_other_modules example_env ''gate.sv'' ''Fifo'' = Inr [''Helper'']"
    by code_simp
  have h4: "?script = equiv_script ''gold.sv'' ''gate.sv'' ''Fifo''
                      (delete_commands [''Helper''])
                      (delete_commands [''Helper''])
                      ''a'' ''b'' (if True then ''equiv_induct'' else ''equiv_simple'')"
    by (simp add: delete_commands_def)
  have e: "expires_on_a_b ?script = Expired"
    by code_simp
  have f: "fails_on_a_b ?script = Failed"
    by code_simp
  have h5: "expires_on_a_b ?script = Expired \<or> expires_on_a_b ?script = Failed
           \<or> (\<exists>out err. expires_on_a_b ?script = Completed out err \<and> search_proven out = None)"
    using e by simp
  have h5': "fails_on_a_b ?script = Expired \<or> fails_on_a_b ?script = Failed
           \<or> (\<exists>out err. fails_on_a_b ?script = Completed out err \<and> search_proven out = None)"
    using f by simp
  have others: "discovery_loop example_env expires_on_a_b ''gold.sv'' ''gate.sv'' ''Fifo'' True
                  ([(''x'', ''y'', 8)] @ [(''p'', ''q'', 4)]) []
                = [(''x'', ''y'', 8), (''p'', ''q'', 4)]"
    by code_simp
  have others': "discovery_loop example_env fails_on_a_b ''gold.sv'' ''gate.sv'' ''Fifo'' True
                  ([(''x'', ''y'', 8)] @ [(''p'', ''q'', 4)]) []
                = [(''x'', ''y'', 8), (''p'', ''q'', 4)]"
    by code_simp
  note t = discovery_failed_query_isolated
             [where yosys = expires_on_a_b and pre = "[(''x'', ''y'', 8)]"
                and post = "[(''p'', ''q'', 4)]" and width = 8 and correspondences = "[]",
              OF h1 h2 h3 h4 h5]
  note t' = discovery_failed_query_isolated
             [where yosys = fails_on_a_b and pre = "[(''x'', ''y'', 8)]"
                and post = "[(''p'', ''q'', 4)]" and width = 8 and correspondences = "[]",
              OF h1 h2 h3 h4 h5']
  show ?thesis
    using h1 h2 e f t t' unfolding others others' by simp
qed

text \<open>
  C9, as stated: for a pair whose backend run times out or errors, the check of
  the pair returns false.  It fails on the code when the backend cannot be run:
  \<open>subprocess.run\<close> raises, \<open>test_equivalence\<close> catches the timeout only, and the
  exception leaves it instead of a result.
\<close>

theorem test_equivalence_raises_counterexample:
  "snd (test_equivalence example_env fails_on_a_b ''gold.sv'' ''gate.sv'' ''Fifo'' ''a'' ''b'' True)
     = Inl OSError"
  by code_simp

text \<open>
  C10: for a pair whose gold name equals its gate name \<open>test_equivalence\<close> returns
  proven and gives the backend no script, whatever the design files hold and
  whatever the backend would answer.
\<close>

theorem test_equivalence_same_name:
  "test_equivalence e yosys gold_file gate_file module_name sig_name sig_name use_induct
     = ([], Inr True)"
  by (simp add: test_equivalence_def)

theorem test_equivalence_same_name_witness:
  "test_equivalence example_env (completes_with unproven_output) ''gold.sv'' ''gate.sv'' ''Fifo''
     ''sum'' ''sum'' True = ([], Inr True)
   \<and> judge_output unproven_output = False"
proof -
  have "judge_output unproven_output = False"
    by code_simp
  then show ?thesis
    using test_equivalence_same_name
            [of example_env "completes_with unproven_output" "''gold.sv''" "''gate.sv''"
               "''Fifo''" "''sum''" True]
    by simp
qed

section \<open>Source locations\<close>





























lemma annotation_Cons2:
  "join '', '' (map grouped_form (g # h # gs))
     = grouped_form g @ '', '' @ join '', '' (map grouped_form (h # gs))"
  by simp


























text \<open>
  The lookahead of the simple pattern at work: a column followed by a comma
  loses its last digit, and a column of one digit is lost with its line.
\<close>

lemma parse_chisel_locations_comma_example:
  "parse_chisel_locations ''src/main/scala/Fifo.scala:46:20, :47:10'' = Inr [(46, 2), (47, 10)]
   \<and> parse_chisel_locations ''src/main/scala/Fifo.scala:46:5, :47:10'' = Inr [(47, 10)]"
  by code_simp


end
